theory Spec2Isabelle
  imports Complex_Main "HOL-Library.Log_Nat"
begin

section \<open>Python values the module computes with\<close>

text \<open>
  The module is pure Python arithmetic on \<open>int\<close> and \<open>float\<close> values. An \<open>int\<close> is
  unbounded; a \<open>float\<close> is an IEEE binary64 number, so every float operation rounds its
  exact result to the nearest double (ties to even), overflows to an infinity, and keeps
  NaN and the sign of zero. Exceptions are values of \<open>pyerr\<close>; a computation that may
  raise returns \<open>pyerr + 'a\<close> with \<open>Inl\<close> the exception. \<open>NotModelled\<close> is not a
  Python exception: it marks the few places where a library function is asked for
  something the module never asks of it.
\<close>

datatype pyerr =
  ZeroDivisionError | OverflowError | TypeError | ValueError | KeyError
  | NotImplementedError | AttributeError | NotModelled

fun thn :: "pyerr + 'a \<Rightarrow> ('a \<Rightarrow> pyerr + 'b) \<Rightarrow> pyerr + 'b" where
  "thn (Inl e) f = Inl e"
| "thn (Inr v) f = f v"

subsection \<open>binary64\<close>

text \<open>
  A finite double is kept as the rational it denotes (\<open>Fin 0\<close> is \<open>+0.0\<close>, \<open>NZero\<close>
  is \<open>-0.0\<close>).
\<close>

datatype pyfloat = Fin rat | NZero | PInf | NInf | NaN

fun is_nan :: "pyfloat \<Rightarrow> bool" where
  "is_nan NaN = True"
| "is_nan _ = False"

fun is_inf :: "pyfloat \<Rightarrow> bool" where
  "is_inf PInf = True"
| "is_inf NInf = True"
| "is_inf _ = False"

fun is_zero :: "pyfloat \<Rightarrow> bool" where
  "is_zero (Fin q) = (q = 0)"
| "is_zero NZero = True"
| "is_zero _ = False"

fun sign_bit :: "pyfloat \<Rightarrow> bool" where
  "sign_bit (Fin q) = (q < 0)"
| "sign_bit NZero = True"
| "sign_bit NInf = True"
| "sign_bit _ = False"

fun fval :: "pyfloat \<Rightarrow> rat" where
  "fval (Fin q) = q"
| "fval _ = 0"

definition signed_zero :: "bool \<Rightarrow> pyfloat" where
  "signed_zero neg = (if neg then NZero else Fin 0)"

definition signed_inf :: "bool \<Rightarrow> pyfloat" where
  "signed_inf neg = (if neg then NInf else PInf)"

text \<open>Round half to even, to an integer.\<close>

definition rhe :: "rat \<Rightarrow> int" where
  "rhe x = (let f = \<lfloor>x\<rfloor>; d = x - of_int f in
     if d < 1 / 2 then f else if 1 / 2 < d then f + 1 else if even f then f else f + 1)"

text \<open>The binary exponent \<open>\<lfloor>log\<^sub>2 x\<rfloor>\<close> of a positive rational.\<close>

definition flog2 :: "rat \<Rightarrow> int" where
  "flog2 x = (if 1 \<le> x then bitlen \<lfloor>x\<rfloor> - 1 else - bitlen (\<lceil>1 / x\<rceil> - 1))"

text \<open>
  Rounding an exact result to binary64: 53 significant bits, the spacing never below
  \<open>2\<^sup>-\<^sup>1\<^sup>0\<^sup>7\<^sup>4\<close> (subnormals), ties to even, and a rounded magnitude of \<open>2\<^sup>1\<^sup>0\<^sup>2\<^sup>4\<close> or more is an
  infinity.
\<close>

definition fround :: "rat \<Rightarrow> pyfloat" where
  "fround q = (let k = max (flog2 \<bar>q\<bar>) (- 1022) - 52;
                   r = of_int (rhe (q / 2 powi k)) * 2 powi k in
     if 2 ^ 1024 \<le> \<bar>r\<bar> then signed_inf (q < 0)
     else if r = 0 then signed_zero (q < 0)
     else Fin r)"

fun fneg :: "pyfloat \<Rightarrow> pyfloat" where
  "fneg (Fin q) = (if q = 0 then NZero else Fin (- q))"
| "fneg NZero = Fin 0"
| "fneg PInf = NInf"
| "fneg NInf = PInf"
| "fneg NaN = NaN"

definition fmul :: "pyfloat \<Rightarrow> pyfloat \<Rightarrow> pyfloat" where
  "fmul x y =
     (if is_nan x \<or> is_nan y then NaN
      else if is_inf x \<or> is_inf y then
        (if is_zero x \<or> is_zero y then NaN else signed_inf (sign_bit x \<noteq> sign_bit y))
      else if is_zero x \<or> is_zero y then signed_zero (sign_bit x \<noteq> sign_bit y)
      else fround (fval x * fval y))"

definition fdiv :: "pyfloat \<Rightarrow> pyfloat \<Rightarrow> pyfloat" where
  "fdiv x y =
     (if is_nan x \<or> is_nan y then NaN
      else if is_inf x then (if is_inf y then NaN else signed_inf (sign_bit x \<noteq> sign_bit y))
      else if is_inf y then signed_zero (sign_bit x \<noteq> sign_bit y)
      else if is_zero y then (if is_zero x then NaN else signed_inf (sign_bit x \<noteq> sign_bit y))
      else if is_zero x then signed_zero (sign_bit x \<noteq> sign_bit y)
      else fround (fval x / fval y))"

definition fadd :: "pyfloat \<Rightarrow> pyfloat \<Rightarrow> pyfloat" where
  "fadd x y =
     (if is_nan x \<or> is_nan y then NaN
      else if is_inf x then (if is_inf y \<and> x \<noteq> y then NaN else x)
      else if is_inf y then y
      else if fval x + fval y = 0 then (if x = NZero \<and> y = NZero then NZero else Fin 0)
      else fround (fval x + fval y))"

definition fsub :: "pyfloat \<Rightarrow> pyfloat \<Rightarrow> pyfloat" where
  "fsub x y = fadd x (fneg y)"

text \<open>The comparison \<open>x < y\<close> of two doubles (false when either is NaN).\<close>

fun rank :: "pyfloat \<Rightarrow> int" where
  "rank NInf = - 1"
| "rank PInf = 1"
| "rank _ = 0"

definition flt :: "pyfloat \<Rightarrow> pyfloat \<Rightarrow> bool" where
  "flt x y \<longleftrightarrow> \<not> is_nan x \<and> \<not> is_nan y \<and>
     (rank x < rank y \<or> (rank x = rank y \<and> fval x < fval y))"

subsection \<open>The C library functions behind \<open>//\<close>\<close>

definition trunc :: "rat \<Rightarrow> int" where
  "trunc q = (if 0 \<le> q then \<lfloor>q\<rfloor> else \<lceil>q\<rceil>)"

definition c_fmod :: "pyfloat \<Rightarrow> pyfloat \<Rightarrow> pyfloat" where
  "c_fmod x y =
     (if is_nan x \<or> is_nan y \<or> is_inf x \<or> is_zero y then NaN
      else if is_inf y then x
      else if is_zero x then x
      else (let r = fval x - of_int (trunc (fval x / fval y)) * fval y in
            if r = 0 then signed_zero (sign_bit x) else Fin r))"

fun c_floor :: "pyfloat \<Rightarrow> pyfloat" where
  "c_floor (Fin q) = Fin (of_int \<lfloor>q\<rfloor>)"
| "c_floor x = x"

text \<open>
  CPython's \<open>_float_div_mod\<close>, the quotient part, for a divisor that is not zero:
  \<^verbatim>\<open>
  mod = fmod(vx, wx);
  div = (vx - mod) / wx;
  if (mod) { if ((wx < 0) != (mod < 0)) { mod += wx; div -= 1.0; } }
  if (div) { floordiv = floor(div); if (div - floordiv > 0.5) floordiv += 1.0; }
  else floordiv = copysign(0.0, vx / wx);
  \<close>
\<close>

definition float_floor_div :: "pyfloat \<Rightarrow> pyfloat \<Rightarrow> pyfloat" where
  "float_floor_div vx wx =
     (let md = c_fmod vx wx;
          div0 = fdiv (fsub vx md) wx;
          dv = (if \<not> is_zero md \<and> (flt wx (Fin 0) \<noteq> flt md (Fin 0))
                then fsub div0 (Fin 1) else div0)
      in if \<not> is_zero dv then
           (let fd = c_floor dv in
            if flt (Fin (1 / 2)) (fsub dv fd) then fadd fd (Fin 1) else fd)
         else signed_zero (sign_bit (fdiv vx wx)))"

subsection \<open>Python's arithmetic operators on \<open>int\<close> and \<open>float\<close>\<close>

datatype pyval = PInt int | PFloat pyfloat

text \<open>\<open>PyLong_AsDouble\<close>: the nearest double, or \<open>OverflowError\<close>.\<close>

definition float_of_int :: "int \<Rightarrow> pyerr + pyfloat" where
  "float_of_int n = (let r = fround (of_int n) in
     if is_inf r then Inl OverflowError else Inr r)"

fun as_double :: "pyval \<Rightarrow> pyerr + pyfloat" where
  "as_double (PInt n) = float_of_int n"
| "as_double (PFloat x) = Inr x"

fun py_mul :: "pyval \<Rightarrow> pyval \<Rightarrow> pyerr + pyval" where
  "py_mul (PInt a) (PInt b) = Inr (PInt (a * b))"
| "py_mul v w = thn (as_double v) (\<lambda>x. thn (as_double w) (\<lambda>y. Inr (PFloat (fmul x y))))"

fun py_add :: "pyval \<Rightarrow> pyval \<Rightarrow> pyerr + pyval" where
  "py_add (PInt a) (PInt b) = Inr (PInt (a + b))"
| "py_add v w = thn (as_double v) (\<lambda>x. thn (as_double w) (\<lambda>y. Inr (PFloat (fadd x y))))"

fun py_sub :: "pyval \<Rightarrow> pyval \<Rightarrow> pyerr + pyval" where
  "py_sub (PInt a) (PInt b) = Inr (PInt (a - b))"
| "py_sub v w = thn (as_double v) (\<lambda>x. thn (as_double w) (\<lambda>y. Inr (PFloat (fsub x y))))"

text \<open>
  True division \<open>/\<close> always yields a float. Of two ints it is the correctly rounded
  quotient; otherwise both operands are converted first and the divisor is then tested.
\<close>

fun py_truediv :: "pyval \<Rightarrow> pyval \<Rightarrow> pyerr + pyval" where
  "py_truediv (PInt a) (PInt b) =
     (if b = 0 then Inl ZeroDivisionError
      else (let r = (if a = 0 then signed_zero (b < 0) else fround (of_int a / of_int b)) in
            if is_inf r then Inl OverflowError else Inr (PFloat r)))"
| "py_truediv v w =
     thn (as_double v) (\<lambda>x. thn (as_double w) (\<lambda>y.
       if is_zero y then Inl ZeroDivisionError else Inr (PFloat (fdiv x y))))"

fun py_floordiv :: "pyval \<Rightarrow> pyval \<Rightarrow> pyerr + pyval" where
  "py_floordiv (PInt a) (PInt b) =
     (if b = 0 then Inl ZeroDivisionError else Inr (PInt (a div b)))"
| "py_floordiv v w =
     thn (as_double v) (\<lambda>x. thn (as_double w) (\<lambda>y.
       if is_zero y then Inl ZeroDivisionError else Inr (PFloat (float_floor_div x y))))"

text \<open>
  \<open>v ** 2\<close>. For a float CPython's \<open>float_pow\<close> settles NaN, the infinities, zero and
  \<open>\<plusminus>1.0\<close> itself and leaves the rest to the platform's \<open>pow(\<bar>v\<bar>, 2.0)\<close>, which is not
  correctly rounded on every C library. The platform function is therefore a parameter
  \<open>pw\<close>: it returns the double and whether it set \<open>errno\<close> to \<open>ERANGE\<close>. An infinite
  result, or \<open>ERANGE\<close> with a result that is not zero, becomes \<open>OverflowError\<close>.
\<close>

type_synonym libm_pow = "pyfloat \<Rightarrow> pyfloat \<times> bool"

fun py_pow2 :: "libm_pow \<Rightarrow> pyval \<Rightarrow> pyerr + pyval" where
  "py_pow2 pw (PInt a) = Inr (PInt (a * a))"
| "py_pow2 pw (PFloat x) =
     (if is_nan x then Inr (PFloat NaN)
      else if is_inf x then Inr (PFloat PInf)
      else if is_zero x then Inr (PFloat (Fin 0))
      else if \<bar>fval x\<bar> = 1 then Inr (PFloat (Fin 1))
      else (case pw (Fin \<bar>fval x\<bar>) of (r, erange) \<Rightarrow>
              if (if erange then \<not> is_zero r else is_inf r) then Inl OverflowError
              else Inr (PFloat r)))"

text \<open>A correctly rounded \<open>pow(x, 2.0)\<close>, one admissible platform function.\<close>

definition pow_exact :: libm_pow where
  "pow_exact x = (let r = fround (fval x * fval x) in (r, is_inf r \<or> is_zero r))"

section \<open>The module\<close>

subsection \<open>Strings\<close>

text \<open>A Python \<open>str\<close> is a sequence of Unicode code points.\<close>

type_synonym pystr = "nat list"

definition ustr :: "string \<Rightarrow> pystr" where
  "ustr s = map of_char s"

subsection \<open>The Training hierarchy\<close>

text \<open>
  The four classes. The dataclass constructors store their arguments as they are, so a
  field holds whatever number was passed: the driver passes ints for every field.
  Fields in constructor order: action, duration, weight, then \<open>height\<close> for
  SportsWalking, \<open>length_pool\<close> and \<open>count_pool\<close> for Swimming.
\<close>

datatype training =
  Training pyval pyval pyval
  | Running pyval pyval pyval
  | SportsWalking pyval pyval pyval pyval
  | Swimming pyval pyval pyval pyval pyval

fun action :: "training \<Rightarrow> pyval" where
  "action (Training a d w) = a"
| "action (Running a d w) = a"
| "action (SportsWalking a d w h) = a"
| "action (Swimming a d w l c) = a"

fun duration :: "training \<Rightarrow> pyval" where
  "duration (Training a d w) = d"
| "duration (Running a d w) = d"
| "duration (SportsWalking a d w h) = d"
| "duration (Swimming a d w l c) = d"

fun weight :: "training \<Rightarrow> pyval" where
  "weight (Training a d w) = w"
| "weight (Running a d w) = w"
| "weight (SportsWalking a d w h) = w"
| "weight (Swimming a d w l c) = w"

text \<open>\<open>type(self).__name__\<close>\<close>

fun class_name :: "training \<Rightarrow> pystr" where
  "class_name (Training a d w) = ustr ''Training''"
| "class_name (Running a d w) = ustr ''Running''"
| "class_name (SportsWalking a d w h) = ustr ''SportsWalking''"
| "class_name (Swimming a d w l c) = ustr ''Swimming''"

text \<open>Class constants. A float literal denotes the double nearest to its decimal.\<close>

fun LEN_STEP :: "training \<Rightarrow> pyval" where
  "LEN_STEP (Swimming a d w l c) = PFloat (fround (138 / 100))"
| "LEN_STEP _ = PFloat (fround (65 / 100))"

definition M_IN_KM :: pyval where
  "M_IN_KM = PInt 1000"

definition TOTTALLY_MINUTES_IN_HOURS :: pyval where
  "TOTTALLY_MINUTES_IN_HOURS = PInt 60"

definition COEFF_CALORIE_RUN_1 :: pyval where
  "COEFF_CALORIE_RUN_1 = PInt 18"

definition COEFF_CALORIE_RUN_2 :: pyval where
  "COEFF_CALORIE_RUN_2 = PInt 20"

definition COEFF_CALORIE_WALK_1 :: pyval where
  "COEFF_CALORIE_WALK_1 = PFloat (fround (35 / 1000))"

definition COEFF_CALORIE_WALK_2 :: pyval where
  "COEFF_CALORIE_WALK_2 = PFloat (fround (29 / 1000))"

definition COEFF_CALORIE_SWIM_1 :: pyval where
  "COEFF_CALORIE_SWIM_1 = PFloat (fround (11 / 10))"

definition COEFF_CALORIE_SWIM_2 :: pyval where
  "COEFF_CALORIE_SWIM_2 = PInt 2"

text \<open>
  \<open>get_distance\<close>: \<open>self.action * self.LEN_STEP / self.M_IN_KM\<close>, in the base class and
  again in Swimming, which only changes \<open>LEN_STEP\<close>.
\<close>

definition get_distance :: "training \<Rightarrow> pyerr + pyval" where
  "get_distance t = thn (py_mul (action t) (LEN_STEP t)) (\<lambda>x. py_truediv x M_IN_KM)"

text \<open>
  \<open>get_mean_speed\<close>: \<open>self.get_distance() / self.duration\<close>; Swimming overrides it with
  \<open>self.length_pool * self.count_pool / self.M_IN_KM / self.duration\<close>.
\<close>

fun get_mean_speed :: "training \<Rightarrow> pyerr + pyval" where
  "get_mean_speed (Swimming a d w l c) =
     thn (py_mul l c) (\<lambda>x. thn (py_truediv x M_IN_KM) (\<lambda>y. py_truediv y d))"
| "get_mean_speed t = thn (get_distance t) (\<lambda>x. py_truediv x (duration t))"

text \<open>
  \<open>get_spent_calories\<close>. Operands are evaluated left to right, so the first operation
  that raises decides the exception.
\<close>

fun get_spent_calories :: "libm_pow \<Rightarrow> training \<Rightarrow> pyerr + pyval" where
  "get_spent_calories pw (Training a d w) = Inl NotImplementedError"
| "get_spent_calories pw (Running a d w) =
     thn (get_mean_speed (Running a d w)) (\<lambda>s.
     thn (py_mul COEFF_CALORIE_RUN_1 s) (\<lambda>x1.
     thn (py_sub x1 COEFF_CALORIE_RUN_2) (\<lambda>x2.
     thn (py_mul x2 w) (\<lambda>x3.
     thn (py_truediv x3 M_IN_KM) (\<lambda>x4.
     thn (py_mul x4 d) (\<lambda>x5.
     py_mul x5 TOTTALLY_MINUTES_IN_HOURS))))))"
| "get_spent_calories pw (SportsWalking a d w h) =
     thn (py_mul COEFF_CALORIE_WALK_1 w) (\<lambda>x1.
     thn (get_mean_speed (SportsWalking a d w h)) (\<lambda>s.
     thn (py_pow2 pw s) (\<lambda>x2.
     thn (py_floordiv x2 h) (\<lambda>x3.
     thn (py_mul x3 COEFF_CALORIE_WALK_2) (\<lambda>x4.
     thn (py_mul x4 w) (\<lambda>x5.
     thn (py_add x1 x5) (\<lambda>x6.
     thn (py_mul x6 d) (\<lambda>x7.
     py_mul x7 TOTTALLY_MINUTES_IN_HOURS))))))))"
| "get_spent_calories pw (Swimming a d w l c) =
     thn (get_mean_speed (Swimming a d w l c)) (\<lambda>s.
     thn (py_add s COEFF_CALORIE_SWIM_1) (\<lambda>x1.
     thn (py_mul x1 COEFF_CALORIE_SWIM_2) (\<lambda>x2.
     py_mul x2 w)))"

subsection \<open>InfoMessage\<close>

record info_message =
  training_type :: pystr
  im_duration :: pyval
  im_distance :: pyval
  im_speed :: pyval
  im_calories :: pyval
  message_output :: pystr

text \<open>
  The default of the field \<open>message_output\<close>, a string literal in Russian with five
  replacement fields. Its text between the fields is given by code points (the Cyrillic
  letters are U+0410 to U+044F); the fields are \<open>{training_type}\<close>,
  \<open>{duration:.3f}\<close>, \<open>{distance:.3f}\<close>, \<open>{speed:.3f}\<close> and \<open>{calories:.3f}\<close>.
\<close>

definition lit_type :: pystr where
  "lit_type = [1058, 1080, 1087, 32, 1090, 1088, 1077, 1085, 1080, 1088, 1086, 1074, 1082,
     1080, 58, 32]"

definition lit_duration :: pystr where
  "lit_duration = [59, 32, 1044, 1083, 1080, 1090, 1077, 1083, 1100, 1085, 1086, 1089, 1090,
     1100, 58, 32]"

definition lit_distance :: pystr where
  "lit_distance = [32, 1095, 46, 59, 32, 1044, 1080, 1089, 1090, 1072, 1085, 1094, 1080,
     1103, 58, 32]"

definition lit_speed :: pystr where
  "lit_speed = [32, 1082, 1084, 59, 32, 1057, 1088, 46, 32, 1089, 1082, 1086, 1088, 1086,
     1089, 1090, 1100, 58, 32]"

definition lit_calories :: pystr where
  "lit_calories = [32, 1082, 1084, 47, 1095, 59, 32, 1055, 1086, 1090, 1088, 1072, 1095,
     1077, 1085, 1086, 32, 1082, 1082, 1072, 1083, 58, 32]"

definition default_message_output :: pystr where
  "default_message_output =
     lit_type @ ustr ''{training_type}'' @ lit_duration @ ustr ''{duration:.3f}''
     @ lit_distance @ ustr ''{distance:.3f}'' @ lit_speed @ ustr ''{speed:.3f}''
     @ lit_calories @ ustr ''{calories:.3f}'' @ ustr ''.''"

text \<open>The constructor call with five arguments, as \<open>show_training_info\<close> makes it.\<close>

definition InfoMessage :: "pystr \<Rightarrow> pyval \<Rightarrow> pyval \<Rightarrow> pyval \<Rightarrow> pyval \<Rightarrow> info_message" where
  "InfoMessage ty du di sp ca =
     \<lparr>training_type = ty, im_duration = du, im_distance = di, im_speed = sp,
      im_calories = ca, message_output = default_message_output\<rparr>"

subsection \<open>str.format\<close>

text \<open>Decimal digits of a natural number, and the same padded with zeros on the left.\<close>

function dec_digits :: "nat \<Rightarrow> pystr" where
  "dec_digits n = (if n < 10 then [48 + n] else dec_digits (n div 10) @ [48 + n mod 10])"
  by pat_completeness auto
termination
  by (relation "measure id") auto

declare dec_digits.simps [simp del]

definition zero_pad :: "nat \<Rightarrow> pystr \<Rightarrow> pystr" where
  "zero_pad w ds = replicate (w - length ds) 48 @ ds"

text \<open>
  The presentation type \<open>f\<close> with a precision, \<open>format(x, '.Nf')\<close>, of a float: the exact
  value of the double rounded to \<open>N\<close> decimals (ties to even), a minus sign when the sign
  bit is set, and \<open>inf\<close>, \<open>-inf\<close> or \<open>nan\<close> for the values that are not finite.
\<close>

definition float_format_f :: "nat \<Rightarrow> pyfloat \<Rightarrow> pystr" where
  "float_format_f prec x =
     (if is_nan x then ustr ''nan''
      else if is_inf x then (if sign_bit x then ustr ''-inf'' else ustr ''inf'')
      else (let n = nat (rhe (\<bar>fval x\<bar> * 10 ^ prec)) in
            (if sign_bit x then ustr ''-'' else [])
            @ dec_digits (n div 10 ^ prec)
            @ (if prec = 0 then [] else 46 # zero_pad prec (dec_digits (n mod 10 ^ prec)))))"

text \<open>An int is converted to a float first, which may overflow.\<close>

definition format_f :: "nat \<Rightarrow> pyval \<Rightarrow> pyerr + pystr" where
  "format_f prec v = thn (as_double v) (\<lambda>x. Inr (float_format_f prec x))"

text \<open>
  A format string is literal text and replacement fields \<open>{name}\<close> or \<open>{name:spec}\<close>;
  \<open>{{\<close> and \<open>}}\<close> stand for a brace. A brace that is alone or not closed is a
  \<open>ValueError\<close>. The scanner reads the string once, left to right. Fields without a
  name, with a conversion (\<open>!r\<close>), an index or an attribute, and nested fields do not
  occur in the module.
\<close>

datatype fmt_item = Lit nat | Field pystr pystr

datatype scan = InText | AfterOpen | InField pystr | AfterClose

fun split_field :: "pystr \<Rightarrow> pystr \<Rightarrow> fmt_item" where
  "split_field acc [] = Field (rev acc) []"
| "split_field acc (c # cs) = (if c = 58 then Field (rev acc) cs else split_field (c # acc) cs)"

fun parse_format :: "scan \<Rightarrow> pystr \<Rightarrow> pyerr + fmt_item list" where
  "parse_format InText [] = Inr []"
| "parse_format InText (c # cs) =
     (if c = 123 then parse_format AfterOpen cs
      else if c = 125 then parse_format AfterClose cs
      else thn (parse_format InText cs) (\<lambda>is. Inr (Lit c # is)))"
| "parse_format AfterOpen [] = Inl ValueError"
| "parse_format AfterOpen (c # cs) =
     (if c = 123 then thn (parse_format InText cs) (\<lambda>is. Inr (Lit 123 # is))
      else if c = 125 then Inl NotModelled
      else parse_format (InField [c]) cs)"
| "parse_format (InField acc) [] = Inl ValueError"
| "parse_format (InField acc) (c # cs) =
     (if c = 125 then thn (parse_format InText cs) (\<lambda>is. Inr (split_field [] (rev acc) # is))
      else if c = 123 then Inl NotModelled
      else parse_format (InField (c # acc)) cs)"
| "parse_format AfterClose [] = Inl ValueError"
| "parse_format AfterClose (c # cs) =
     (if c = 125 then thn (parse_format InText cs) (\<lambda>is. Inr (Lit 125 # is))
      else Inl ValueError)"

text \<open>A field name the module can use is an identifier: a keyword argument.\<close>

definition is_identifier :: "pystr \<Rightarrow> bool" where
  "is_identifier n \<longleftrightarrow> n \<noteq> [] \<and> \<not> (48 \<le> hd n \<and> hd n \<le> 57) \<and>
     (\<forall>c \<in> set n. (97 \<le> c \<and> c \<le> 122) \<or> (65 \<le> c \<and> c \<le> 90) \<or> (48 \<le> c \<and> c \<le> 57) \<or> c = 95)"

text \<open>
  The arguments of \<open>format\<close> are strings and numbers. The specs the module uses are
  the empty one, on a string, and \<open>.Nf\<close>, on a number.
\<close>

datatype fmt_value = FStr pystr | FNum pyval

fun digits_value :: "nat \<Rightarrow> pystr \<Rightarrow> nat option" where
  "digits_value acc [] = Some acc"
| "digits_value acc (c # cs) =
     (if 48 \<le> c \<and> c \<le> 57 then digits_value (10 * acc + (c - 48)) cs else None)"

text \<open>The precision \<open>N\<close> of a spec \<open>.Nf\<close>.\<close>

definition fixed_spec :: "pystr \<Rightarrow> nat option" where
  "fixed_spec sp =
     (if 3 \<le> length sp \<and> hd sp = 46 \<and> last sp = 102
      then digits_value 0 (butlast (tl sp)) else None)"

fun format_value :: "fmt_value \<Rightarrow> pystr \<Rightarrow> pyerr + pystr" where
  "format_value (FStr s) sp =
     (if sp = [] then Inr s
      else if fixed_spec sp \<noteq> None then Inl ValueError
      else Inl NotModelled)"
| "format_value (FNum v) sp =
     (case fixed_spec sp of Some prec \<Rightarrow> format_f prec v | None \<Rightarrow> Inl NotModelled)"

fun render :: "(pystr \<rightharpoonup> fmt_value) \<Rightarrow> fmt_item list \<Rightarrow> pyerr + pystr" where
  "render kw [] = Inr []"
| "render kw (Lit c # is) = thn (render kw is) (\<lambda>r. Inr (c # r))"
| "render kw (Field n sp # is) =
     (if \<not> is_identifier n then Inl NotModelled
      else (case kw n of
              None \<Rightarrow> Inl KeyError
            | Some v \<Rightarrow> thn (format_value v sp) (\<lambda>s. thn (render kw is) (\<lambda>r. Inr (s @ r)))))"

definition str_format :: "pystr \<Rightarrow> (pystr \<rightharpoonup> fmt_value) \<Rightarrow> pyerr + pystr" where
  "str_format fs kw = thn (parse_format InText fs) (render kw)"

text \<open>\<open>dataclasses.asdict\<close>: every field by its name.\<close>

definition asdict :: "info_message \<Rightarrow> (pystr \<rightharpoonup> fmt_value)" where
  "asdict m = map_of
     [(ustr ''training_type'', FStr (training_type m)),
      (ustr ''duration'', FNum (im_duration m)),
      (ustr ''distance'', FNum (im_distance m)),
      (ustr ''speed'', FNum (im_speed m)),
      (ustr ''calories'', FNum (im_calories m)),
      (ustr ''message_output'', FStr (message_output m))]"

text \<open>\<open>get_message\<close>: \<open>self.message_output.format(**asdict(self))\<close>\<close>

definition get_message :: "info_message \<Rightarrow> pyerr + pystr" where
  "get_message m = str_format (message_output m) (asdict m)"

text \<open>
  \<open>show_training_info\<close>: the arguments of the constructor are evaluated in order, so
  \<open>get_distance\<close>, then \<open>get_mean_speed\<close>, then \<open>get_spent_calories\<close>.
\<close>

definition show_training_info :: "libm_pow \<Rightarrow> training \<Rightarrow> pyerr + info_message" where
  "show_training_info pw t =
     thn (get_distance t) (\<lambda>di.
     thn (get_mean_speed t) (\<lambda>sp.
     thn (get_spent_calories pw t) (\<lambda>ca.
     Inr (InfoMessage (class_name t) (duration t) di sp ca))))"

subsection \<open>read_package\<close>

datatype cls = CSwimming | CRunning | CSportsWalking

text \<open>
  Calling a class with \<open>*data\<close>: the generated \<open>__init__\<close> takes exactly its fields
  (Running has no fields of its own and inherits the three of Training), and any other
  number of arguments is a \<open>TypeError\<close>.
\<close>

fun construct :: "cls \<Rightarrow> pyval list \<Rightarrow> pyerr + training" where
  "construct CRunning [a, d, w] = Inr (Running a d w)"
| "construct CSportsWalking [a, d, w, h] = Inr (SportsWalking a d w h)"
| "construct CSwimming [a, d, w, l, c] = Inr (Swimming a d w l c)"
| "construct _ _ = Inl TypeError"

definition workout_code :: "pystr \<rightharpoonup> cls" where
  "workout_code = [ustr ''SWM'' \<mapsto> CSwimming, ustr ''RUN'' \<mapsto> CRunning,
     ustr ''WLK'' \<mapsto> CSportsWalking]"

text \<open>What \<open>read_package\<close> hands back: a Training object, or the string it returns.\<close>

datatype pyobj = Obj training | Str pystr

definition no_such_training :: pystr where
  "no_such_training = [1058, 1072, 1082, 1086, 1081, 32, 1090, 1088, 1077, 1085, 1080, 1088,
     1086, 1074, 1082, 1080, 32, 1085, 1077, 1090, 33]"

text \<open>
  The \<open>KeyError\<close> of the dictionary lookup is caught and turned into the returned
  string; nothing else is caught.
\<close>

definition read_package :: "pystr \<Rightarrow> pyval list \<Rightarrow> pyerr + pyobj" where
  "read_package workout_type data =
     (case workout_code workout_type of
        None \<Rightarrow> Inr (Str no_such_training)
      | Some c \<Rightarrow> thn (construct c data) (\<lambda>t. Inr (Obj t)))"

subsection \<open>main\<close>

text \<open>
  \<open>main\<close> calls \<open>show_training_info\<close> on what it is given and prints the message; the
  result here is the printed line. A \<open>str\<close> has no such method.
\<close>

definition main :: "libm_pow \<Rightarrow> pyobj \<Rightarrow> pyerr + pystr" where
  "main pw training =
     (case training of
        Str s \<Rightarrow> Inl AttributeError
      | Obj t \<Rightarrow> thn (show_training_info pw t) get_message)"

subsection \<open>Which exceptions a computation can raise\<close>

text \<open>\<open>raises_only S m\<close>: if \<open>m\<close> raises, the exception is one of \<open>S\<close>.\<close>

definition raises_only :: "pyerr set \<Rightarrow> pyerr + 'a \<Rightarrow> bool" where
  "raises_only S m \<longleftrightarrow> (\<forall>e. m = Inl e \<longrightarrow> e \<in> S)"

subsection \<open>The tabulated formulas\<close>

text \<open>\<open>v == 0\<close> for a number.\<close>

fun is_zero_val :: "pyval \<Rightarrow> bool" where
  "is_zero_val (PInt n) = (n = 0)"
| "is_zero_val (PFloat x) = is_zero x"


text \<open>
  The formulas as the specification tabulates them, read as Python expressions:
  the mean speed \<open>action * 0.65 / 1000 / duration\<close>, and for Running
  \<open>(18 * speed - 20) * weight / 1000 * duration * 60\<close>.
\<close>

definition spec_mean_speed :: "pyval \<Rightarrow> pyval \<Rightarrow> pyerr + pyval" where
  "spec_mean_speed a d =
     thn (py_mul a (PFloat (fround (65 / 100)))) (\<lambda>x.
     thn (py_truediv x (PInt 1000)) (\<lambda>y. py_truediv y d))"

definition running_calories_spec :: "pyval \<Rightarrow> pyval \<Rightarrow> pyval \<Rightarrow> pyerr + pyval" where
  "running_calories_spec a d w =
     thn (spec_mean_speed a d) (\<lambda>speed.
     thn (py_mul (PInt 18) speed) (\<lambda>x1.
     thn (py_sub x1 (PInt 20)) (\<lambda>x2.
     thn (py_mul x2 w) (\<lambda>x3.
     thn (py_truediv x3 (PInt 1000)) (\<lambda>x4.
     thn (py_mul x4 d) (\<lambda>x5.
     py_mul x5 (PInt 60)))))))"

text \<open>
  Swimming: the distance \<open>action * 1.38 / 1000\<close>, the mean speed
  \<open>length_pool * count_pool / 1000 / duration\<close> and the calories
  \<open>(speed + 1.1) * 2 * weight\<close>.
\<close>

definition swimming_distance_spec :: "pyval \<Rightarrow> pyerr + pyval" where
  "swimming_distance_spec a =
     thn (py_mul a (PFloat (fround (138 / 100)))) (\<lambda>x. py_truediv x (PInt 1000))"

definition swimming_speed_spec :: "pyval \<Rightarrow> pyval \<Rightarrow> pyval \<Rightarrow> pyerr + pyval" where
  "swimming_speed_spec l c d =
     thn (py_mul l c) (\<lambda>x. thn (py_truediv x (PInt 1000)) (\<lambda>y. py_truediv y d))"

definition swimming_calories_spec :: "pyval \<Rightarrow> pyval \<Rightarrow> pyval \<Rightarrow> pyval \<Rightarrow> pyerr + pyval" where
  "swimming_calories_spec l c d w =
     thn (swimming_speed_spec l c d) (\<lambda>speed.
     thn (py_add speed (PFloat (fround (11 / 10)))) (\<lambda>x1.
     thn (py_mul x1 (PInt 2)) (\<lambda>x2.
     py_mul x2 w)))"


text \<open>A string of decimal digits.\<close>

definition is_digits :: "pystr \<Rightarrow> bool" where
  "is_digits s \<longleftrightarrow> (\<forall>c \<in> set s. 48 \<le> c \<and> c \<le> 57)"

subsection \<open>Comparing doubles\<close>

text \<open>\<open>x <= y\<close> for two doubles (false when either is NaN).\<close>

definition fle :: "pyfloat \<Rightarrow> pyfloat \<Rightarrow> bool" where
  "fle x y \<longleftrightarrow> \<not> is_nan x \<and> \<not> is_nan y \<and>
     (rank x < rank y \<or> (rank x = rank y \<and> fval x \<le> fval y))"


text \<open>The same number, up to the sign of zero.\<close>

definition fsame :: "pyfloat \<Rightarrow> pyfloat \<Rightarrow> bool" where
  "fsame x y \<longleftrightarrow> is_nan x = is_nan y \<and> rank x = rank y \<and> fval x = fval y"


text \<open>The value \<open>fround\<close> rounds to, before the range is checked.\<close>

definition rnd :: "rat \<Rightarrow> rat" where
  "rnd q = of_int (rhe (q / 2 powi (max (flog2 \<bar>q\<bar>) (- 1022) - 52)))
             * 2 powi (max (flog2 \<bar>q\<bar>) (- 1022) - 52)"

section \<open>Facts about rounding\<close>

text \<open>
  \<open>flog2\<close> is the binary exponent, so a rounding can be evaluated once the exponent
  of the exact value is known (\<open>fround_eval\<close>); \<open>rhe\<close> is odd, monotone and exact on
  integers.
\<close>

lemma powi_unique:
  fixes x :: rat
  assumes "2 powi e \<le> x" "x < 2 powi (e + 1)" "2 powi f \<le> x" "x < 2 powi (f + 1)"
  shows "e = f"
proof -
  have "(2::rat) powi e < 2 powi (f + 1)" using assms by linarith
  then have "e < f + 1" using power_int_increasing [of "f + 1" e "2::rat"] by (cases "e < f + 1") auto
  moreover have "(2::rat) powi f < 2 powi (e + 1)" using assms by linarith
  then have "f < e + 1" using power_int_increasing [of "e + 1" f "2::rat"] by (cases "f < e + 1") auto
  ultimately show ?thesis by simp
qed

lemma flog2_bounds:
  assumes "0 < x"
  shows "2 powi (flog2 x) \<le> x \<and> x < 2 powi (flog2 x + 1)"
proof (cases "1 \<le> x")
  case True
  define n where "n = \<lfloor>x\<rfloor>"
  have n: "1 \<le> n" using True by (simp add: n_def)
  then have b: "2 ^ nat (bitlen n - 1) \<le> n \<and> n < 2 ^ nat (bitlen n)"
    using bitlen_bounds [of n] by simp
  have bl: "1 \<le> bitlen n" using n bitlen_eq_zero_iff [of n] bitlen_nonneg [of n] by simp
  have "(of_int (2 ^ nat (bitlen n - 1)) :: rat) \<le> of_int n" using b by (simp only: of_int_le_iff)
  also have "\<dots> \<le> x" by (simp add: n_def)
  finally have lo: "2 powi (bitlen n - 1) \<le> x" using bl by (simp add: power_int_def)
  have "n + 1 \<le> 2 ^ nat (bitlen n)" using b by simp
  then have "(of_int (n + 1) :: rat) \<le> of_int (2 ^ nat (bitlen n))" by (simp only: of_int_le_iff)
  then have "(of_int n + 1 :: rat) \<le> 2 ^ nat (bitlen n)" by simp
  moreover have "x < of_int n + 1" unfolding n_def by linarith
  ultimately have "x < 2 ^ nat (bitlen n)" by linarith
  then have hi: "x < 2 powi (bitlen n)" using bl by (simp add: power_int_def)
  show ?thesis using True lo hi by (simp add: flog2_def n_def)
next
  case False
  define c where "c = \<lceil>1 / x\<rceil>"
  define m where "m = bitlen (c - 1)"
  have y: "1 < 1 / x" using False assms by simp
  then have c: "2 \<le> c" unfolding c_def by linarith
  then have b: "2 ^ nat (m - 1) \<le> c - 1 \<and> c - 1 < 2 ^ nat m"
    using bitlen_bounds [of "c - 1"] by (simp add: m_def)
  have bl: "1 \<le> m" using c bitlen_eq_zero_iff [of "c - 1"] bitlen_nonneg [of "c - 1"] by (simp add: m_def)
  have "c \<le> 2 ^ nat m" using b by simp
  then have "(of_int c :: rat) \<le> of_int (2 ^ nat m)" by (simp only: of_int_le_iff)
  then have "(of_int c :: rat) \<le> 2 ^ nat m" by simp
  moreover have "1 / x \<le> of_int c" by (simp add: c_def)
  ultimately have "1 / x \<le> 2 ^ nat m" by linarith
  then have "1 \<le> 2 ^ nat m * x" using assms by (simp add: field_simps)
  then have lo: "2 powi (- m) \<le> x" using bl by (simp add: power_int_def field_simps)
  have "(of_int (2 ^ nat (m - 1)) :: rat) \<le> of_int (c - 1)" using b by (simp only: of_int_le_iff)
  then have "(2 ^ nat (m - 1) :: rat) \<le> of_int c - 1" by simp
  moreover have "of_int c - 1 < 1 / x" unfolding c_def by linarith
  ultimately have "2 ^ nat (m - 1) < 1 / x" by linarith
  then have "2 ^ nat (m - 1) * x < 1" using assms by (simp add: field_simps)
  then have hi: "x < 2 powi (- m + 1)"
    using bl by (cases "m = 1") (simp_all add: power_int_def field_simps nat_diff_distrib)
  show ?thesis using False lo hi by (simp add: flog2_def c_def m_def)
qed

lemma flog2_eqI:
  "2 powi e \<le> x \<Longrightarrow> x < 2 powi (e + 1) \<Longrightarrow> flog2 x = e"
proof -
  assume a: "2 powi e \<le> x" "x < 2 powi (e + 1)"
  have "0 < (2::rat) powi e" by simp
  then have "0 < x" using a by linarith
  from flog2_bounds [OF this] a show ?thesis using powi_unique by blast
qed

lemma rhe_of_int [simp]: "rhe (of_int n) = n"
  by (simp add: rhe_def)

lemma rhe_minus: "rhe (- x) = - rhe x"
proof (cases "x = of_int \<lfloor>x\<rfloor>")
  case True
  then obtain n where "x = of_int n" ..
  then show ?thesis by (simp flip: of_int_minus)
next
  case False
  have f: "\<lfloor>- x\<rfloor> = - \<lfloor>x\<rfloor> - 1" using False by (simp add: floor_minus ceiling_altdef)
  have d: "0 < x - of_int \<lfloor>x\<rfloor>" using False of_int_floor_le [of x] by linarith
  have e: "- x - of_int (- \<lfloor>x\<rfloor> - 1) = 1 - (x - of_int \<lfloor>x\<rfloor>)" by simp
  have l: "x - of_int \<lfloor>x\<rfloor> < 1" by linarith
  show ?thesis unfolding rhe_def Let_def f e using d l by auto
qed

lemma rhe_divide:
  assumes "0 < b"
  shows "rhe (of_int a / of_int b) =
    (if 2 * (a mod b) < b then a div b
     else if b < 2 * (a mod b) then a div b + 1
     else if even (a div b) then a div b else a div b + 1)"
proof -
  have f: "\<lfloor>(of_int a / of_int b :: rat)\<rfloor> = a div b"
    by (simp add: floor_divide_of_int_eq)
  have bp: "0 < (of_int b :: rat)" using assms by simp
  have "a = a div b * b + a mod b" by simp
  then have "(of_int a :: rat) = of_int (a div b) * of_int b + of_int (a mod b)"
    by (metis of_int_add of_int_mult)
  then have "(of_int a / of_int b :: rat) = of_int (a div b) + of_int (a mod b) / of_int b"
    using bp by (simp add: add_divide_distrib)
  then have d: "(of_int a / of_int b :: rat) - of_int (a div b) = of_int (a mod b) / of_int b"
    by simp
  have lt: "(of_int (a mod b) / of_int b < (1 / 2 :: rat)) = (2 * (a mod b) < b)"
  proof -
    have "(of_int (a mod b) / of_int b < (1 / 2 :: rat))
        = (of_int (a mod b) * 2 < (of_int b :: rat))"
      using bp by (simp add: pos_divide_less_eq)
    also have "\<dots> = (of_int (a mod b * 2) < (of_int b :: rat))" by simp
    also have "\<dots> = (a mod b * 2 < b)" by (rule of_int_less_iff)
    finally show ?thesis by (simp add: mult.commute)
  qed
  have gt: "((1 / 2 :: rat) < of_int (a mod b) / of_int b) = (b < 2 * (a mod b))"
  proof -
    have "((1 / 2 :: rat) < of_int (a mod b) / of_int b)
        = ((of_int b :: rat) < of_int (a mod b) * 2)"
      using bp by (simp add: pos_less_divide_eq)
    also have "\<dots> = ((of_int b :: rat) < of_int (a mod b * 2))" by simp
    also have "\<dots> = (b < a mod b * 2)" by (rule of_int_less_iff)
    finally show ?thesis by (simp add: mult.commute)
  qed
  show ?thesis unfolding rhe_def Let_def f d lt gt by simp
qed

lemma rhe_numeral_divide:
  "rhe (numeral a / numeral b) =
    (if 2 * (numeral a mod numeral b) < (numeral b :: int) then numeral a div numeral b
     else if (numeral b :: int) < 2 * (numeral a mod numeral b) then numeral a div numeral b + 1
     else if even (numeral a div numeral b :: int) then numeral a div numeral b
     else numeral a div numeral b + 1)"
  using rhe_divide [of "numeral b" "numeral a"] by simp

lemma rhe_numeral [simp]: "rhe (numeral a) = numeral a"
  using rhe_of_int [of "numeral a"] by simp

lemma rhe_mono: "x \<le> y \<Longrightarrow> rhe x \<le> rhe y"
proof -
  assume xy: "x \<le> y"
  have fl: "\<lfloor>x\<rfloor> \<le> \<lfloor>y\<rfloor>" using xy by (rule floor_mono)
  have lx: "rhe x \<le> \<lfloor>x\<rfloor> + 1" by (simp add: rhe_def Let_def)
  have ly: "\<lfloor>y\<rfloor> \<le> rhe y" by (simp add: rhe_def Let_def)
  show ?thesis
  proof (cases "\<lfloor>x\<rfloor> < \<lfloor>y\<rfloor>")
    case True
    then show ?thesis using lx ly by linarith
  next
    case False
    then have eq: "\<lfloor>x\<rfloor> = \<lfloor>y\<rfloor>" using fl by simp
    then have "x - of_int \<lfloor>x\<rfloor> \<le> y - of_int \<lfloor>y\<rfloor>" using xy by simp
    then show ?thesis using eq by (auto simp: rhe_def Let_def)
  qed
qed

lemma fround_eval:
  assumes "2 powi e \<le> \<bar>q\<bar>" "\<bar>q\<bar> < 2 powi (e + 1)" "- 1022 \<le> e"
  shows "fround q =
    (let r = of_int (rhe (q / 2 powi (e - 52))) * 2 powi (e - 52) in
     if 2 ^ 1024 \<le> \<bar>r\<bar> then signed_inf (q < 0) else Fin r)"
proof -
  have fl: "flog2 \<bar>q\<bar> = e" using assms by (intro flog2_eqI)
  define s where "s = \<bar>q\<bar> / 2 powi (e - 52)"
  have "2 powi e = (2::rat) powi (e - 52) * 2 ^ 52"
    using power_int_add [of "2::rat" "e - 52" 52] by simp
  then have "2 ^ 52 \<le> s" using assms(1) by (simp add: s_def pos_le_divide_eq mult.commute)
  then have "rhe (of_int (2 ^ 52)) \<le> rhe s" by (intro rhe_mono) simp
  then have "2 ^ 52 \<le> rhe s" by (simp only: rhe_of_int)
  then have pos: "0 < rhe s" by simp
  have "rhe (q / 2 powi (e - 52)) = (if q < 0 then - rhe s else rhe s)"
    using rhe_minus [of s] by (auto simp: s_def abs_if)
  then have "rhe (q / 2 powi (e - 52)) \<noteq> 0" using pos by auto
  then have "of_int (rhe (q / 2 powi (e - 52))) * 2 powi (e - 52) \<noteq> (0::rat)" by simp
  then show ?thesis using assms(3) by (simp add: fround_def fl Let_def)
qed

lemmas fround_simps = rhe_numeral_divide rhe_minus Let_def signed_inf_def signed_zero_def


section \<open>Exceptions of the arithmetic\<close>

lemma raises_only_thn:
  "raises_only S m \<Longrightarrow> (\<And>v. raises_only S (f v)) \<Longrightarrow> raises_only S (thn m f)"
  by (cases m) (auto simp: raises_only_def)

lemma raises_only_Inr: "raises_only S (Inr v)"
  by (simp add: raises_only_def)

lemma raises_only_mono: "raises_only S m \<Longrightarrow> S \<subseteq> T \<Longrightarrow> raises_only T m"
  by (auto simp: raises_only_def)

lemma raises_only_Inl: "e \<in> S \<Longrightarrow> raises_only S (Inl e)"
  by (simp add: raises_only_def)

lemma raises_only_if:
  "raises_only S a \<Longrightarrow> raises_only S b \<Longrightarrow> raises_only S (if c then a else b)"
  by simp

lemma float_of_int_raises: "raises_only {OverflowError} (float_of_int n)"
  by (auto simp: raises_only_def float_of_int_def Let_def split: if_splits)

lemma as_double_raises: "raises_only {OverflowError} (as_double v)"
  by (cases v) (auto simp: float_of_int_raises raises_only_Inr)

lemma py_mul_raises: "raises_only {OverflowError} (py_mul v w)"
  by (cases v; cases w) (auto intro!: raises_only_thn raises_only_Inr as_double_raises float_of_int_raises)

lemma py_add_raises: "raises_only {OverflowError} (py_add v w)"
  by (cases v; cases w) (auto intro!: raises_only_thn raises_only_Inr as_double_raises float_of_int_raises)

lemma py_sub_raises: "raises_only {OverflowError} (py_sub v w)"
  by (cases v; cases w) (auto intro!: raises_only_thn raises_only_Inr as_double_raises float_of_int_raises)

lemma as_double_raises2: "raises_only {ZeroDivisionError, OverflowError} (as_double v)"
  by (rule raises_only_mono [OF as_double_raises]) simp

lemma float_of_int_raises2: "raises_only {ZeroDivisionError, OverflowError} (float_of_int n)"
  by (rule raises_only_mono [OF float_of_int_raises]) simp

lemma py_truediv_raises: "raises_only {ZeroDivisionError, OverflowError} (py_truediv v w)"
  by (cases v; cases w)
     (auto simp: Let_def intro!: raises_only_thn as_double_raises2 float_of_int_raises2
        raises_only_if raises_only_Inl raises_only_Inr)

lemma py_floordiv_raises: "raises_only {ZeroDivisionError, OverflowError} (py_floordiv v w)"
  by (cases v; cases w)
     (auto simp: Let_def intro!: raises_only_thn as_double_raises2 float_of_int_raises2
        raises_only_if raises_only_Inl raises_only_Inr)

lemma py_pow2_raises: "raises_only {OverflowError} (py_pow2 pw v)"
  by (cases v) (auto simp: raises_only_def split: prod.splits)

lemmas arith_raises =
  raises_only_mono [OF py_mul_raises, of "{ZeroDivisionError, OverflowError}", simplified]
  raises_only_mono [OF py_add_raises, of "{ZeroDivisionError, OverflowError}", simplified]
  raises_only_mono [OF py_sub_raises, of "{ZeroDivisionError, OverflowError}", simplified]
  raises_only_mono [OF py_pow2_raises, of "{ZeroDivisionError, OverflowError}", simplified]
  py_truediv_raises py_floordiv_raises

lemma float_of_int_1000: "float_of_int 1000 = Inr (Fin 1000)"
  by (simp add: float_of_int_def fround_eval [where e = 9] fround_simps)

lemma truediv_M_IN_KM_raises: "raises_only {OverflowError} (py_truediv x M_IN_KM)"
  by (cases x) (auto simp: M_IN_KM_def Let_def raises_only_def float_of_int_1000)

lemma get_distance_raises: "raises_only {OverflowError} (get_distance t)"
  unfolding get_distance_def by (intro raises_only_thn py_mul_raises truediv_M_IN_KM_raises)

lemma get_mean_speed_raises: "raises_only {ZeroDivisionError, OverflowError} (get_mean_speed t)"
  by (cases t)
     (auto intro!: raises_only_thn arith_raises raises_only_mono [OF get_distance_raises])

lemma get_spent_calories_raises:
  "raises_only {ZeroDivisionError, OverflowError, NotImplementedError} (get_spent_calories pw t)"
proof (cases t)
  case (Training a d w)
  then show ?thesis by (simp add: raises_only_def)
next
  case (Running a d w)
  have "raises_only {ZeroDivisionError, OverflowError} (get_spent_calories pw (Running a d w))"
    unfolding get_spent_calories.simps
    by (intro raises_only_thn arith_raises get_mean_speed_raises)
  then show ?thesis using Running by (auto intro: raises_only_mono)
next
  case (SportsWalking a d w h)
  have "raises_only {ZeroDivisionError, OverflowError} (get_spent_calories pw (SportsWalking a d w h))"
    unfolding get_spent_calories.simps
    by (intro raises_only_thn arith_raises get_mean_speed_raises)
  then show ?thesis using SportsWalking by (auto intro: raises_only_mono)
next
  case (Swimming a d w l c)
  have "raises_only {ZeroDivisionError, OverflowError} (get_spent_calories pw (Swimming a d w l c))"
    unfolding get_spent_calories.simps
    by (intro raises_only_thn arith_raises get_mean_speed_raises)
  then show ?thesis using Swimming by (auto intro: raises_only_mono)
qed



section \<open>Evaluating the arithmetic on numerals\<close>

lemma floor_numeral_divide: "\<lfloor>(numeral a / numeral b :: rat)\<rfloor> = numeral a div numeral b"
  using floor_divide_of_int_eq [of "numeral a" "numeral b", where ?'a = rat] by simp

lemma ceiling_numeral_divide: "\<lceil>(numeral a / numeral b :: rat)\<rceil> = - ((- numeral a) div numeral b)"
  using ceiling_divide_eq_div [of "numeral a" "numeral b", where ?'a = rat] by simp

lemma bitlen_numeral: "bitlen (numeral n) = bitlen (numeral n div 2) + 1"
  by (subst compute_bitlen) simp

lemma bitlen_one: "bitlen 1 = 1"
  by (subst compute_bitlen) simp

lemmas float_eval = fround_def flog2_def floor_numeral_divide ceiling_numeral_divide
  bitlen_numeral bitlen_one rhe_numeral_divide rhe_minus Let_def signed_inf_def signed_zero_def


lemmas py_eval = get_distance_def M_IN_KM_def TOTTALLY_MINUTES_IN_HOURS_def
  COEFF_CALORIE_RUN_1_def COEFF_CALORIE_RUN_2_def COEFF_CALORIE_WALK_1_def
  COEFF_CALORIE_WALK_2_def COEFF_CALORIE_SWIM_1_def COEFF_CALORIE_SWIM_2_def
  float_of_int_def fmul_def fdiv_def fadd_def fsub_def float_eval


lemma dec_digits_small: "n < 10 \<Longrightarrow> dec_digits n = [48 + n]"
  by (subst dec_digits.simps) simp

lemma dec_digits_large: "10 \<le> n \<Longrightarrow> dec_digits n = dec_digits (n div 10) @ [48 + n mod 10]"
  by (subst dec_digits.simps) simp

lemma zero_pad_3:
  "zero_pad 3 [a] = [48, 48, a]" "zero_pad 3 [a, b] = [48, a, b]" "zero_pad 3 [a, b, c] = [a, b, c]"
  by (simp_all add: zero_pad_def numeral_3_eq_3 numeral_2_eq_2)

lemmas fmt_eval = format_f_def float_format_f_def zero_pad_3 ustr_def
  dec_digits_small dec_digits_large


section \<open>Signs, zeros and divisors\<close>



lemma fround_nonzero:
  assumes "1 \<le> \<bar>q\<bar>"
  shows "\<not> is_zero (fround q)"
proof -
  define e where "e = flog2 \<bar>q\<bar>"
  have qp: "0 < \<bar>q\<bar>" using assms by linarith
  have b: "2 powi e \<le> \<bar>q\<bar>" "\<bar>q\<bar> < 2 powi (e + 1)"
    using flog2_bounds [OF qp] by (simp_all add: e_def)
  have "(2::rat) powi 0 < 2 powi (e + 1)" using assms b by simp
  then have "0 < e + 1"
    using power_int_increasing [of "e + 1" 0 "2::rat"] by (cases "0 < e + 1") auto
  then have e: "- 1022 \<le> e" by simp
  define s where "s = \<bar>q\<bar> / 2 powi (e - 52)"
  have "2 powi e = (2::rat) powi (e - 52) * 2 ^ 52"
    using power_int_add [of "2::rat" "e - 52" 52] by simp
  then have "2 ^ 52 \<le> s" using b(1) by (simp add: s_def pos_le_divide_eq mult.commute)
  then have "rhe (of_int (2 ^ 52)) \<le> rhe s" by (intro rhe_mono) simp
  then have "2 ^ 52 \<le> rhe s" by (simp only: rhe_of_int)
  then have pos: "0 < rhe s" by simp
  have "rhe (q / 2 powi (e - 52)) = (if q < 0 then - rhe s else rhe s)"
    using rhe_minus [of s] by (auto simp: s_def abs_if)
  then have "rhe (q / 2 powi (e - 52)) \<noteq> 0" using pos by auto
  then have "of_int (rhe (q / 2 powi (e - 52))) * 2 powi (e - 52) \<noteq> (0::rat)" by simp
  then show ?thesis
    by (simp add: fround_eval [OF b e] Let_def signed_inf_def)
qed

lemma float_of_int_nonzero: "n \<noteq> 0 \<Longrightarrow> float_of_int n = Inr r \<Longrightarrow> \<not> is_zero r"
proof -
  assume n: "n \<noteq> 0" and r: "float_of_int n = Inr r"
  have "1 \<le> \<bar>of_int n :: rat\<bar>" using n by (simp flip: of_int_abs)
  then have "\<not> is_zero (fround (of_int n))" by (rule fround_nonzero)
  then show ?thesis using r by (auto simp: float_of_int_def Let_def split: if_splits)
qed

lemma thn_Inl: "thn m f = Inl e \<longleftrightarrow> m = Inl e \<or> (\<exists>v. m = Inr v \<and> f v = Inl e)"
  by (cases m) auto

lemma as_double_nonzero: "\<not> is_zero_val w \<Longrightarrow> as_double w = Inr y \<Longrightarrow> \<not> is_zero y"
  by (cases w) (auto dest: float_of_int_nonzero)

lemma py_truediv_nonzero:
  assumes "\<not> is_zero_val w"
  shows "raises_only {OverflowError} (py_truediv v w)"
proof (cases "\<exists>a b. v = PInt a \<and> w = PInt b")
  case True
  then show ?thesis using assms by (auto simp: raises_only_def Let_def split: if_splits)
next
  case False
  then have eq: "py_truediv v w = thn (as_double v) (\<lambda>x. thn (as_double w) (\<lambda>y.
       if is_zero y then Inl ZeroDivisionError else Inr (PFloat (fdiv x y))))"
    by (cases v; cases w) auto
  show ?thesis unfolding eq raises_only_def
    using as_double_raises [of v] as_double_raises [of w] as_double_nonzero [OF assms]
    by (auto simp: thn_Inl raises_only_def split: if_splits)
qed


lemma thn_assoc: "thn (thn m f) g = thn m (\<lambda>x. thn (f x) g)"
  by (cases m) auto

lemma truediv_1000_raises: "raises_only {OverflowError} (py_truediv x (PInt 1000))"
  using truediv_M_IN_KM_raises [of x] by (simp add: M_IN_KM_def)

lemma spec_mean_speed_raises:
  "\<not> is_zero_val d \<Longrightarrow> raises_only {OverflowError} (spec_mean_speed a d)"
  unfolding spec_mean_speed_def
  by (intro raises_only_thn py_mul_raises truediv_1000_raises py_truediv_nonzero)

lemma swimming_speed_spec_raises:
  "\<not> is_zero_val d \<Longrightarrow> raises_only {OverflowError} (swimming_speed_spec l c d)"
  unfolding swimming_speed_spec_def
  by (intro raises_only_thn py_mul_raises truediv_1000_raises py_truediv_nonzero)






lemma float_of_int_0: "float_of_int 0 = Inr (Fin 0)"
  using rhe_of_int [of 0] by (simp add: float_of_int_def fround_def Let_def signed_zero_def)

lemma as_double_zero: "is_zero_val d \<Longrightarrow> \<exists>y. as_double d = Inr y \<and> is_zero y"
  by (cases d) (auto simp: float_of_int_0)

lemma py_truediv_zero: "is_zero_val d \<Longrightarrow> py_truediv (PFloat x) d = Inl ZeroDivisionError"
  using as_double_zero [of d] by (cases d) auto


lemma thn_Inr: "thn m f = Inr r \<longleftrightarrow> (\<exists>v. m = Inr v \<and> f v = Inr r)"
  by (cases m) auto

lemma py_truediv_float: "py_truediv v w = Inr r \<Longrightarrow> \<exists>f. r = PFloat f"
  by (cases v; cases w) (auto simp: thn_Inr Let_def split: if_splits)

lemma get_distance_float: "get_distance t = Inr r \<Longrightarrow> \<exists>f. r = PFloat f"
  by (auto simp: get_distance_def thn_Inr dest: py_truediv_float)



lemma truediv_by_zero:
  assumes "is_zero_val d" "raises_only {OverflowError} m" "\<And>x. m = Inr x \<Longrightarrow> \<exists>f. x = PFloat f"
  shows "thn m (\<lambda>y. py_truediv y d)
    = (case m of Inl e \<Rightarrow> Inl OverflowError | Inr x \<Rightarrow> Inl ZeroDivisionError)"
proof (cases m)
  case (Inl e)
  then show ?thesis using assms(2) by (simp add: raises_only_def)
next
  case (Inr x)
  then obtain f where "x = PFloat f" using assms(3) by blast
  then show ?thesis using Inr py_truediv_zero [OF assms(1)] by (simp del: py_truediv.simps)
qed

lemma pool_raises:
  "raises_only {OverflowError} (thn (py_mul l c) (\<lambda>x. py_truediv x M_IN_KM))"
  by (intro raises_only_thn py_mul_raises truediv_M_IN_KM_raises)

lemma pool_float: "thn (py_mul l c) (\<lambda>x. py_truediv x M_IN_KM) = Inr x \<Longrightarrow> \<exists>f. x = PFloat f"
  by (auto simp: thn_Inr dest: py_truediv_float)

lemma mean_speed_by_zero:
  assumes "is_zero_val (duration t)"
  shows "get_mean_speed t =
    (case t of
       Swimming a d w l c \<Rightarrow>
         (case thn (py_mul l c) (\<lambda>x. py_truediv x M_IN_KM) of
            Inl e \<Rightarrow> Inl OverflowError | Inr x \<Rightarrow> Inl ZeroDivisionError)
     | _ \<Rightarrow> (case get_distance t of
            Inl e \<Rightarrow> Inl OverflowError | Inr x \<Rightarrow> Inl ZeroDivisionError))"
proof (cases t)
  case (Swimming a d w l c)
  have "get_mean_speed t = thn (thn (py_mul l c) (\<lambda>x. py_truediv x M_IN_KM)) (\<lambda>y. py_truediv y d)"
    using Swimming by (simp add: thn_assoc)
  also have "\<dots> = (case thn (py_mul l c) (\<lambda>x. py_truediv x M_IN_KM) of
            Inl e \<Rightarrow> Inl OverflowError | Inr x \<Rightarrow> Inl ZeroDivisionError)"
    using assms Swimming by (intro truediv_by_zero pool_raises pool_float) auto
  finally show ?thesis using Swimming by simp
next
  case (Training a d w)
  have "get_mean_speed t = thn (get_distance t) (\<lambda>y. py_truediv y d)"
    using Training by simp
  also have "\<dots> = (case get_distance t of
            Inl e \<Rightarrow> Inl OverflowError | Inr x \<Rightarrow> Inl ZeroDivisionError)"
    using assms Training by (intro truediv_by_zero get_distance_raises get_distance_float) auto
  finally show ?thesis using Training by simp
next
  case (Running a d w)
  have "get_mean_speed t = thn (get_distance t) (\<lambda>y. py_truediv y d)"
    using Running by simp
  also have "\<dots> = (case get_distance t of
            Inl e \<Rightarrow> Inl OverflowError | Inr x \<Rightarrow> Inl ZeroDivisionError)"
    using assms Running by (intro truediv_by_zero get_distance_raises get_distance_float) auto
  finally show ?thesis using Running by simp
next
  case (SportsWalking a d w h)
  have "get_mean_speed t = thn (get_distance t) (\<lambda>y. py_truediv y d)"
    using SportsWalking by simp
  also have "\<dots> = (case get_distance t of
            Inl e \<Rightarrow> Inl OverflowError | Inr x \<Rightarrow> Inl ZeroDivisionError)"
    using assms SportsWalking by (intro truediv_by_zero get_distance_raises get_distance_float) auto
  finally show ?thesis using SportsWalking by simp
qed

section \<open>Formatting\<close>

lemmas lit_defs = lit_type_def lit_duration_def lit_distance_def lit_speed_def lit_calories_def

lemma parse_default:
  "parse_format InText default_message_output = Inr (
     map Lit lit_type @ [Field (ustr ''training_type'') []]
     @ map Lit lit_duration @ [Field (ustr ''duration'') (ustr ''.3f'')]
     @ map Lit lit_distance @ [Field (ustr ''distance'') (ustr ''.3f'')]
     @ map Lit lit_speed @ [Field (ustr ''speed'') (ustr ''.3f'')]
     @ map Lit lit_calories @ [Field (ustr ''calories'') (ustr ''.3f'')]
     @ [Lit 46])"
  by (simp add: default_message_output_def lit_defs ustr_def)

lemma render_lits: "render kw (map Lit s @ is) = thn (render kw is) (\<lambda>r. Inr (s @ r))"
proof (induction s)
  case Nil
  show ?case by (cases "render kw is") auto
next
  case (Cons c s)
  then show ?case by (cases "render kw is") auto
qed

lemma fixed_spec_3f: "fixed_spec (ustr ''.3f'') = Some 3"
  by (simp add: fixed_spec_def ustr_def)

lemma asdict_lookup:
  "asdict (InfoMessage ty du di sp ca) (ustr ''training_type'') = Some (FStr ty)"
  "asdict (InfoMessage ty du di sp ca) (ustr ''duration'') = Some (FNum du)"
  "asdict (InfoMessage ty du di sp ca) (ustr ''distance'') = Some (FNum di)"
  "asdict (InfoMessage ty du di sp ca) (ustr ''speed'') = Some (FNum sp)"
  "asdict (InfoMessage ty du di sp ca) (ustr ''calories'') = Some (FNum ca)"
  by (simp_all add: asdict_def InfoMessage_def ustr_def)

lemma identifiers:
  "is_identifier (ustr ''training_type'')" "is_identifier (ustr ''duration'')"
  "is_identifier (ustr ''distance'')" "is_identifier (ustr ''speed'')"
  "is_identifier (ustr ''calories'')"
  by (simp_all add: is_identifier_def ustr_def)

lemma get_message_default:
  "get_message (InfoMessage ty du di sp ca) =
     thn (format_f 3 du) (\<lambda>s1. thn (format_f 3 di) (\<lambda>s2.
     thn (format_f 3 sp) (\<lambda>s3. thn (format_f 3 ca) (\<lambda>s4.
       Inr (lit_type @ ty @ lit_duration @ s1 @ lit_distance @ s2 @ lit_speed @ s3
            @ lit_calories @ s4 @ ustr ''.'')))))"
proof -
  have m: "message_output (InfoMessage ty du di sp ca) = default_message_output"
    by (simp add: InfoMessage_def)
  have u: "ustr ''.'' = [46]" by (simp add: ustr_def)
  show ?thesis
    unfolding get_message_def str_format_def m parse_default thn.simps
    apply (simp only: render_lits append_assoc append_Cons append_Nil render.simps
        asdict_lookup identifiers fixed_spec_3f format_value.simps option.case if_True if_False
        not_True_eq_False)
    apply (cases "format_f 3 du"; cases "format_f 3 di"; cases "format_f 3 sp";
        cases "format_f 3 ca"; simp add: u)
    done
qed

lemma dec_digits_digits: "is_digits (dec_digits n) \<and> dec_digits n \<noteq> []"
proof (induction n rule: dec_digits.induct)
  case (1 n)
  show ?case
  proof (cases "n < 10")
    case True
    then show ?thesis by (simp add: dec_digits_small is_digits_def)
  next
    case False
    then have "is_digits (dec_digits (n div 10))" using 1 by simp
    moreover have "n mod 10 < 10" by simp
    ultimately show ?thesis using False
      by (auto simp: dec_digits_large is_digits_def)
  qed
qed

lemma dec_digits_length: "n < 1000 \<Longrightarrow> length (dec_digits n) \<le> 3"
proof -
  assume n: "n < 1000"
  show ?thesis
  proof (cases "n < 10")
    case True
    then show ?thesis by (simp add: dec_digits_small)
  next
    case f1: False
    show ?thesis
    proof (cases "n div 10 < 10")
      case True
      then show ?thesis using f1 by (simp add: dec_digits_large dec_digits_small)
    next
      case False
      moreover have "n div 10 div 10 < 10" using n by simp
      ultimately show ?thesis using f1 by (simp add: dec_digits_large dec_digits_small)
    qed
  qed
qed

lemma zero_pad_digits:
  "is_digits ds \<Longrightarrow> length ds \<le> w \<Longrightarrow> is_digits (zero_pad w ds) \<and> length (zero_pad w ds) = w"
  by (auto simp: zero_pad_def is_digits_def)

lemma float_format_f_finite:
  assumes "\<not> is_nan x" "\<not> is_inf x"
  shows "\<exists>ip fr. float_format_f 3 x = (if sign_bit x then ustr ''-'' else []) @ ip @ [46] @ fr
    \<and> ip \<noteq> [] \<and> is_digits ip \<and> length fr = 3 \<and> is_digits fr"
proof -
  define n where "n = nat (rhe (\<bar>fval x\<bar> * 10 ^ 3))"
  have m: "n mod 10 ^ 3 < 1000" by simp
  have fr: "is_digits (zero_pad 3 (dec_digits (n mod 10 ^ 3)))
      \<and> length (zero_pad 3 (dec_digits (n mod 10 ^ 3))) = 3"
    using dec_digits_digits dec_digits_length [OF m] by (intro zero_pad_digits) auto
  have "float_format_f 3 x = (if sign_bit x then ustr ''-'' else [])
      @ dec_digits (n div 10 ^ 3) @ [46] @ zero_pad 3 (dec_digits (n mod 10 ^ 3))"
    using assms by (simp add: float_format_f_def n_def Let_def)
  then show ?thesis using fr dec_digits_digits by blast
qed

section \<open>Rounding is monotone\<close>

lemma fround_rnd:
  "fround q = (if 2 ^ 1024 \<le> \<bar>rnd q\<bar> then signed_inf (q < 0)
     else if rnd q = 0 then signed_zero (q < 0) else Fin (rnd q))"
  by (simp only: fround_def rnd_def Let_def)







lemma rnd_0 [simp]: "rnd 0 = 0"
  using rhe_of_int [of 0] by (simp add: rnd_def)





lemma fround_not_nan [simp]: "\<not> is_nan (fround q)"
  by (simp add: fround_rnd signed_inf_def signed_zero_def)


lemma fround_0 [simp]: "fround 0 = Fin 0"
  by (simp add: fround_rnd signed_zero_def)

lemma fle_fsame: "fsame x x' \<Longrightarrow> fsame y y' \<Longrightarrow> fle x y \<Longrightarrow> fle x' y'"
  by (auto simp: fle_def fsame_def)













section \<open>Properties\<close>

subsection \<open>The dispatcher\<close>

lemma construct_arity:
  "construct c data = Inl TypeError \<longleftrightarrow>
     length data \<noteq> (case c of CRunning \<Rightarrow> 3 | CSportsWalking \<Rightarrow> 4 | CSwimming \<Rightarrow> 5)"
  by (induction c data rule: construct.induct) (auto split: cls.splits)

lemma workout_code_None:
  "workout_type \<notin> {ustr ''SWM'', ustr ''RUN'', ustr ''WLK''} \<Longrightarrow> workout_code workout_type = None"
  by (simp add: workout_code_def)

text \<open>
  C4. For a code that is none of \<open>SWM\<close>, \<open>RUN\<close>, \<open>WLK\<close>, and any data,
  \<open>read_package\<close> returns the plain string and no Training object; the returned value
  cannot be used as a Training: \<open>main\<close> fails on it with \<open>AttributeError\<close>.
\<close>

theorem read_package_unknown_code:
  "workout_type \<notin> {ustr ''SWM'', ustr ''RUN'', ustr ''WLK''} \<Longrightarrow>
     read_package workout_type data = Inr (Str no_such_training)
     \<and> (\<forall>t. read_package workout_type data \<noteq> Inr (Obj t))
     \<and> (\<forall>r. read_package workout_type data = Inr r \<longrightarrow> main pw r = Inl AttributeError)"
  by (simp add: read_package_def workout_code_None main_def)

theorem read_package_unknown_code_witness:
  "ustr ''XYZ'' \<notin> {ustr ''SWM'', ustr ''RUN'', ustr ''WLK''}
   \<and> read_package (ustr ''XYZ'') [PInt 1, PInt 1, PInt 1] = Inr (Str no_such_training)
   \<and> main pow_exact (Str no_such_training) = Inl AttributeError"
  using read_package_unknown_code [of "ustr ''XYZ''" "[PInt 1, PInt 1, PInt 1]" pow_exact]
  by (simp add: ustr_def)

text \<open>
  C7. For a recognised code whose data has not exactly as many values as the class has
  fields (3 for Running, 4 for SportsWalking, 5 for Swimming), \<open>read_package\<close> raises
  \<open>TypeError\<close>: no field is defaulted.
\<close>

theorem read_package_arity:
  "(workout_type = ustr ''RUN'' \<and> length data \<noteq> 3)
   \<or> (workout_type = ustr ''WLK'' \<and> length data \<noteq> 4)
   \<or> (workout_type = ustr ''SWM'' \<and> length data \<noteq> 5)
   \<Longrightarrow> read_package workout_type data = Inl TypeError"
proof (elim disjE conjE)
  assume "workout_type = ustr ''RUN''" "length data \<noteq> 3"
  moreover from this have "construct CRunning data = Inl TypeError"
    by (simp add: construct_arity)
  ultimately show ?thesis
    by (simp add: read_package_def workout_code_def ustr_def)
next
  assume "workout_type = ustr ''WLK''" "length data \<noteq> 4"
  moreover from this have "construct CSportsWalking data = Inl TypeError"
    by (simp add: construct_arity)
  ultimately show ?thesis
    by (simp add: read_package_def workout_code_def ustr_def)
next
  assume "workout_type = ustr ''SWM''" "length data \<noteq> 5"
  moreover from this have "construct CSwimming data = Inl TypeError"
    by (simp add: construct_arity)
  ultimately show ?thesis
    by (simp add: read_package_def workout_code_def ustr_def)
qed

theorem read_package_arity_witness:
  "read_package (ustr ''RUN'') [PInt 1, PInt 1] = Inl TypeError"
  using read_package_arity [of "ustr ''RUN''" "[PInt 1, PInt 1]"] by simp

subsection \<open>The unimplemented base method\<close>

text \<open>
  C6. \<open>get_spent_calories\<close> of a bare \<open>Training\<close> raises \<open>NotImplementedError\<close>, and
  that is the only place of the hierarchy where it is raised: \<open>get_spent_calories\<close>
  raises it for no other class, and \<open>get_distance\<close> and \<open>get_mean_speed\<close> never do.
\<close>

theorem base_calories_not_implemented:
  "get_spent_calories pw (Training a d w) = Inl NotImplementedError
   \<and> (get_spent_calories pw t = Inl NotImplementedError \<longleftrightarrow> (\<exists>a d w. t = Training a d w))
   \<and> get_distance t \<noteq> Inl NotImplementedError
   \<and> get_mean_speed t \<noteq> Inl NotImplementedError"
proof -
  have "get_spent_calories pw t = Inl NotImplementedError \<Longrightarrow> \<exists>a d w. t = Training a d w"
  proof (cases t)
    case (Running a d w)
    assume "get_spent_calories pw t = Inl NotImplementedError"
    then have "raises_only {ZeroDivisionError, OverflowError} (get_spent_calories pw t) \<Longrightarrow> False"
      by (simp add: raises_only_def)
    moreover have "raises_only {ZeroDivisionError, OverflowError} (get_spent_calories pw t)"
      unfolding Running get_spent_calories.simps
      by (intro raises_only_thn arith_raises get_mean_speed_raises)
    ultimately show ?thesis by blast
  next
    case (SportsWalking a d w h)
    assume "get_spent_calories pw t = Inl NotImplementedError"
    then have "raises_only {ZeroDivisionError, OverflowError} (get_spent_calories pw t) \<Longrightarrow> False"
      by (simp add: raises_only_def)
    moreover have "raises_only {ZeroDivisionError, OverflowError} (get_spent_calories pw t)"
      unfolding SportsWalking get_spent_calories.simps
      by (intro raises_only_thn arith_raises get_mean_speed_raises)
    ultimately show ?thesis by blast
  next
    case (Swimming a d w l c)
    assume "get_spent_calories pw t = Inl NotImplementedError"
    then have "raises_only {ZeroDivisionError, OverflowError} (get_spent_calories pw t) \<Longrightarrow> False"
      by (simp add: raises_only_def)
    moreover have "raises_only {ZeroDivisionError, OverflowError} (get_spent_calories pw t)"
      unfolding Swimming get_spent_calories.simps
      by (intro raises_only_thn arith_raises get_mean_speed_raises)
    ultimately show ?thesis by blast
  qed simp
  moreover have "get_distance t \<noteq> Inl NotImplementedError"
    using get_distance_raises [of t] by (auto simp: raises_only_def)
  moreover have "get_mean_speed t \<noteq> Inl NotImplementedError"
    using get_mean_speed_raises [of t] by (auto simp: raises_only_def)
  ultimately show ?thesis by auto
qed

theorem base_calories_not_implemented_witness:
  "get_spent_calories pow_exact (Training (PInt 1) (PInt 1) (PInt 1)) = Inl NotImplementedError
   \<and> get_spent_calories pow_exact (Running (PInt 1) (PInt 1) (PInt 1)) \<noteq> Inl NotImplementedError"
  using base_calories_not_implemented
    [of pow_exact "PInt 1" "PInt 1" "PInt 1" "Running (PInt 1) (PInt 1) (PInt 1)"]
  by simp

subsection \<open>The calorie formulas\<close>

text \<open>
  C2. \<open>get_spent_calories\<close> of a Running is the tabulated expression
  \<open>(18 * speed - 20) * weight / 1000 * duration * 60\<close> with
  \<open>speed = action * 0.65 / 1000 / duration\<close>; when the duration is not zero nothing
  but an overflow can make it raise. For Running(15000, 1, 75) the distance and the
  mean speed are 9.75 and the calories are (18 * 9.75 - 20) * 75 / 1000 * 1 * 60.
\<close>

theorem running_calories_formula:
  "get_spent_calories pw (Running a d w) = running_calories_spec a d w
   \<and> (\<not> is_zero_val d \<longrightarrow> raises_only {OverflowError} (get_spent_calories pw (Running a d w)))
   \<and> get_distance (Running (PInt 15000) (PInt 1) (PInt 75)) = Inr (PFloat (Fin (39 / 4)))
   \<and> get_mean_speed (Running (PInt 15000) (PInt 1) (PInt 75)) = Inr (PFloat (Fin (39 / 4)))
   \<and> get_spent_calories pw (Running (PInt 15000) (PInt 1) (PInt 75))
       = Inr (PFloat (Fin ((18 * (39 / 4) - 20) * 75 / 1000 * 1 * 60)))"
proof -
  have eq: "get_spent_calories pw (Running a d w) = running_calories_spec a d w"
    by (simp add: running_calories_spec_def spec_mean_speed_def get_distance_def M_IN_KM_def
        TOTTALLY_MINUTES_IN_HOURS_def COEFF_CALORIE_RUN_1_def COEFF_CALORIE_RUN_2_def
        thn_assoc)
  have r: "\<not> is_zero_val d \<Longrightarrow> raises_only {OverflowError} (running_calories_spec a d w)"
    unfolding running_calories_spec_def
    by (intro raises_only_thn py_mul_raises py_sub_raises truediv_1000_raises
        spec_mean_speed_raises)
  have e1: "get_distance (Running (PInt 15000) (PInt 1) (PInt 75)) = Inr (PFloat (Fin (39 / 4)))"
    by (simp add: py_eval)
  have e2: "get_mean_speed (Running (PInt 15000) (PInt 1) (PInt 75)) = Inr (PFloat (Fin (39 / 4)))"
    by (simp add: py_eval)
  have e3: "get_spent_calories pw (Running (PInt 15000) (PInt 1) (PInt 75))
       = Inr (PFloat (Fin ((18 * (39 / 4) - 20) * 75 / 1000 * 1 * 60)))"
    by (simp add: py_eval)
  show ?thesis using eq r e1 e2 e3 by simp
qed

theorem running_calories_formula_witness:
  "\<not> is_zero_val (PInt 1)
   \<and> raises_only {OverflowError} (get_spent_calories pow_exact (Running (PInt 15000) (PInt 1) (PInt 75)))
   \<and> get_spent_calories pow_exact (Running (PInt 15000) (PInt 1) (PInt 75))
       = Inr (PFloat (Fin ((18 * (39 / 4) - 20) * 75 / 1000 * 1 * 60)))"
proof -
  have z: "\<not> is_zero_val (PInt 1)" by simp
  show ?thesis
    using z running_calories_formula [of pow_exact "PInt 15000" "PInt 1" "PInt 75"] by blast
qed

text \<open>
  C3. For a Swimming, \<open>get_distance\<close> is \<open>action * 1.38 / 1000\<close> (its own step
  constant), \<open>get_mean_speed\<close> is \<open>length_pool * count_pool / 1000 / duration\<close> and
  \<open>get_spent_calories\<close> is \<open>(speed + 1.1) * 2 * weight\<close>; when the duration is not
  zero nothing but an overflow can make them raise. For Swimming(720, 1, 80, 25, 40) the
  distance formatted to three decimals is 0.994, the speed is 1.0 and the calories are
  336.0.
\<close>

theorem swimming_formulas:
  "get_distance (Swimming a d w l c) = swimming_distance_spec a
   \<and> get_mean_speed (Swimming a d w l c) = swimming_speed_spec l c d
   \<and> get_spent_calories pw (Swimming a d w l c) = swimming_calories_spec l c d w
   \<and> (\<not> is_zero_val d \<longrightarrow>
        raises_only {OverflowError} (get_mean_speed (Swimming a d w l c))
        \<and> raises_only {OverflowError} (get_spent_calories pw (Swimming a d w l c)))
   \<and> thn (get_distance (Swimming (PInt 720) (PInt 1) (PInt 80) (PInt 25) (PInt 40))) (format_f 3)
       = Inr (ustr ''0.994'')
   \<and> get_mean_speed (Swimming (PInt 720) (PInt 1) (PInt 80) (PInt 25) (PInt 40))
       = Inr (PFloat (Fin 1))
   \<and> get_spent_calories pw (Swimming (PInt 720) (PInt 1) (PInt 80) (PInt 25) (PInt 40))
       = Inr (PFloat (Fin 336))"
proof -
  have d: "get_distance (Swimming a d w l c) = swimming_distance_spec a"
    by (simp add: swimming_distance_spec_def get_distance_def M_IN_KM_def)
  have s: "get_mean_speed (Swimming a d w l c) = swimming_speed_spec l c d"
    by (simp add: swimming_speed_spec_def M_IN_KM_def)
  have k: "get_spent_calories pw (Swimming a d w l c) = swimming_calories_spec l c d w"
    by (simp add: swimming_calories_spec_def swimming_speed_spec_def M_IN_KM_def
        COEFF_CALORIE_SWIM_1_def COEFF_CALORIE_SWIM_2_def)
  have r: "\<not> is_zero_val d \<Longrightarrow> raises_only {OverflowError} (swimming_calories_spec l c d w)"
    unfolding swimming_calories_spec_def
    by (intro raises_only_thn py_mul_raises py_add_raises swimming_speed_spec_raises)
  have e0: "get_distance (Swimming (PInt 720) (PInt 1) (PInt 80) (PInt 25) (PInt 40))
      = Inr (PFloat (Fin (8949553179510649 / 9007199254740992)))"
    by (simp add: py_eval)
  have e1: "thn (get_distance (Swimming (PInt 720) (PInt 1) (PInt 80) (PInt 25) (PInt 40)))
      (format_f 3) = Inr (ustr ''0.994'')"
    unfolding e0 by (simp add: fmt_eval rhe_numeral_divide)
  have e2: "get_mean_speed (Swimming (PInt 720) (PInt 1) (PInt 80) (PInt 25) (PInt 40))
       = Inr (PFloat (Fin 1))"
    by (simp add: py_eval)
  have e3: "get_spent_calories pw (Swimming (PInt 720) (PInt 1) (PInt 80) (PInt 25) (PInt 40))
       = Inr (PFloat (Fin 336))"
    by (simp add: py_eval)
  show ?thesis
    using d s k r swimming_speed_spec_raises [of d l c] e1 e2 e3
    by (simp del: get_spent_calories.simps get_mean_speed.simps)
qed

theorem swimming_formulas_witness:
  "\<not> is_zero_val (PInt 1)
   \<and> raises_only {OverflowError}
        (get_mean_speed (Swimming (PInt 720) (PInt 1) (PInt 80) (PInt 25) (PInt 40)))
   \<and> get_spent_calories pow_exact (Swimming (PInt 720) (PInt 1) (PInt 80) (PInt 25) (PInt 40))
       = Inr (PFloat (Fin 336))"
proof -
  have z: "\<not> is_zero_val (PInt 1)" by simp
  show ?thesis
    using z swimming_formulas [of "PInt 720" "PInt 1" "PInt 80" "PInt 25" "PInt 40" pow_exact]
    by blast
qed



subsection \<open>Division by zero\<close>

text \<open>
  C8, as amended. With a duration equal to zero, \<open>get_mean_speed\<close> and
  \<open>show_training_info\<close> never return a number. \<open>get_mean_speed\<close> raises
  \<open>ZeroDivisionError\<close> whenever its dividend is computed (the distance, or for Swimming
  \<open>length_pool * count_pool / 1000\<close>), and \<open>OverflowError\<close> when the dividend itself
  overflows, which an int operand too large for a float causes before the division is
  reached. As stated, with \<open>ZeroDivisionError\<close> for every instance, the claim fails at
  Running(2 ** 1024, 0, 75).
\<close>

theorem mean_speed_zero_duration:
  assumes "is_zero_val (duration t)"
  shows "get_mean_speed t =
      (case t of
         Swimming a d w l c \<Rightarrow>
           (case thn (py_mul l c) (\<lambda>x. py_truediv x M_IN_KM) of
              Inl e \<Rightarrow> Inl OverflowError | Inr x \<Rightarrow> Inl ZeroDivisionError)
       | _ \<Rightarrow> (case get_distance t of
              Inl e \<Rightarrow> Inl OverflowError | Inr x \<Rightarrow> Inl ZeroDivisionError))
    \<and> (get_mean_speed t = Inl ZeroDivisionError \<or> get_mean_speed t = Inl OverflowError)
    \<and> (show_training_info pw t = Inl ZeroDivisionError
        \<or> show_training_info pw t = Inl OverflowError)"
proof -
  note m = mean_speed_by_zero [OF assms]
  have m2: "get_mean_speed t = Inl ZeroDivisionError \<or> get_mean_speed t = Inl OverflowError"
    unfolding m by (auto split: training.splits sum.splits)
  have s: "show_training_info pw t = Inl ZeroDivisionError
        \<or> show_training_info pw t = Inl OverflowError"
  proof (cases "get_distance t")
    case (Inl e)
    then have "e = OverflowError" using get_distance_raises [of t] by (simp add: raises_only_def)
    then show ?thesis using Inl by (simp add: show_training_info_def)
  next
    case (Inr x)
    then show ?thesis using m2 by (auto simp: show_training_info_def)
  qed
  show ?thesis using m m2 s by blast
qed

theorem mean_speed_zero_duration_witness:
  "is_zero_val (duration (Running (PInt 15000) (PInt 0) (PInt 75)))
   \<and> get_mean_speed (Running (PInt 15000) (PInt 0) (PInt 75)) = Inl ZeroDivisionError
   \<and> is_zero_val (duration (Swimming (PInt 720) (PFloat (Fin 0)) (PInt 80) (PInt 25) (PInt 40)))
   \<and> get_mean_speed (Swimming (PInt 720) (PFloat (Fin 0)) (PInt 80) (PInt 25) (PInt 40))
       = Inl ZeroDivisionError"
proof -
  have d: "get_distance (Running (PInt 15000) (PInt 0) (PInt 75)) = Inr (PFloat (Fin (39 / 4)))"
    by (simp add: py_eval)
  have p: "py_truediv (PInt 1000) M_IN_KM = Inr (PFloat (Fin 1))"
    by (simp add: py_eval)
  have z: "is_zero_val (duration (Running (PInt 15000) (PInt 0) (PInt 75)))"
    "is_zero_val (duration (Swimming (PInt 720) (PFloat (Fin 0)) (PInt 80) (PInt 25) (PInt 40)))"
    by simp_all
  show ?thesis
    using mean_speed_zero_duration [OF z(1), of pow_exact]
      mean_speed_zero_duration [OF z(2), of pow_exact] z
    by (simp add: d p del: get_mean_speed.simps)
qed

theorem mean_speed_zero_duration_counterexample:
  "is_zero_val (duration (Running (PInt (2 ^ 1024)) (PInt 0) (PInt 75)))
   \<and> get_mean_speed (Running (PInt (2 ^ 1024)) (PInt 0) (PInt 75)) = Inl OverflowError
   \<and> get_mean_speed (Running (PInt (2 ^ 1024)) (PInt 0) (PInt 75)) \<noteq> Inl ZeroDivisionError"
  by (simp add: py_eval)




subsection \<open>The message\<close>

text \<open>
  C5, as amended. \<open>get_message\<close> of an InfoMessage built from five values is the
  template with the label and the four numbers substituted, the text between them
  unchanged. A number that is a finite float, or an int that converts to one, is
  rendered with a minus sign when negative, at least one digit, a period and exactly
  three digits. An infinity is rendered as \<open>inf\<close> or \<open>-inf\<close> and a NaN as \<open>nan\<close>, without
  decimals, and an int too large for a float raises \<open>OverflowError\<close>: as stated, for
  every value, the claim fails at InfoMessage('Swimming', 1.0, 1.0, 1.0, inf).
\<close>

theorem get_message_template:
  "get_message (InfoMessage ty du di sp ca) =
     thn (format_f 3 du) (\<lambda>s1. thn (format_f 3 di) (\<lambda>s2.
     thn (format_f 3 sp) (\<lambda>s3. thn (format_f 3 ca) (\<lambda>s4.
       Inr (lit_type @ ty @ lit_duration @ s1 @ lit_distance @ s2 @ lit_speed @ s3
            @ lit_calories @ s4 @ ustr ''.'')))))
   \<and> (as_double v = Inr x \<and> \<not> is_nan x \<and> \<not> is_inf x \<longrightarrow>
        (\<exists>ip fr. format_f 3 v = Inr ((if sign_bit x then ustr ''-'' else []) @ ip @ [46] @ fr)
           \<and> ip \<noteq> [] \<and> is_digits ip \<and> length fr = 3 \<and> is_digits fr))
   \<and> format_f 3 (PFloat PInf) = Inr (ustr ''inf'')
   \<and> format_f 3 (PFloat NInf) = Inr (ustr ''-inf'')
   \<and> format_f 3 (PFloat NaN) = Inr (ustr ''nan'')
   \<and> (as_double v = Inl OverflowError \<longrightarrow> format_f 3 v = Inl OverflowError)"
proof -
  have f: "as_double v = Inr x \<Longrightarrow> \<not> is_nan x \<Longrightarrow> \<not> is_inf x \<Longrightarrow>
        (\<exists>ip fr. format_f 3 v = Inr ((if sign_bit x then ustr ''-'' else []) @ ip @ [46] @ fr)
           \<and> ip \<noteq> [] \<and> is_digits ip \<and> length fr = 3 \<and> is_digits fr)"
    using float_format_f_finite [of x] by (simp add: format_f_def)
  have i: "format_f 3 (PFloat PInf) = Inr (ustr ''inf'')"
    "format_f 3 (PFloat NInf) = Inr (ustr ''-inf'')"
    "format_f 3 (PFloat NaN) = Inr (ustr ''nan'')"
    by (simp_all add: format_f_def float_format_f_def)
  have o: "as_double v = Inl OverflowError \<Longrightarrow> format_f 3 v = Inl OverflowError"
    by (simp add: format_f_def)
  show ?thesis using get_message_default [of ty du di sp ca] f i o by blast
qed

theorem get_message_template_witness:
  "as_double (PFloat (Fin 336)) = Inr (Fin 336) \<and> \<not> is_nan (Fin 336) \<and> \<not> is_inf (Fin 336)
   \<and> get_message (InfoMessage (ustr ''Swimming'') (PInt 1)
        (PFloat (Fin (8949553179510649 / 9007199254740992))) (PFloat (Fin 1)) (PFloat (Fin 336)))
     = Inr (lit_type @ ustr ''Swimming'' @ lit_duration @ ustr ''1.000'' @ lit_distance
        @ ustr ''0.994'' @ lit_speed @ ustr ''1.000'' @ lit_calories @ ustr ''336.000''
        @ ustr ''.'')"
proof -
  have a: "format_f 3 (PInt 1) = Inr (ustr ''1.000'')"
    by (simp add: fmt_eval py_eval)
  have b: "format_f 3 (PFloat (Fin (8949553179510649 / 9007199254740992))) = Inr (ustr ''0.994'')"
    by (simp add: fmt_eval rhe_numeral_divide)
  have c: "format_f 3 (PFloat (Fin 1)) = Inr (ustr ''1.000'')"
    by (simp add: fmt_eval)
  have d: "format_f 3 (PFloat (Fin 336)) = Inr (ustr ''336.000'')"
    by (simp add: fmt_eval)
  show ?thesis
    using get_message_template [of "ustr ''Swimming''" "PInt 1"
        "PFloat (Fin (8949553179510649 / 9007199254740992))" "PFloat (Fin 1)" "PFloat (Fin 336)"
        "PFloat (Fin 336)" "Fin 336"]
    by (simp add: a b c d)
qed

theorem get_message_template_counterexample:
  "get_message (InfoMessage (ustr ''Swimming'') (PFloat (Fin 1)) (PFloat (Fin 1)) (PFloat (Fin 1))
      (PFloat PInf))
     = Inr (lit_type @ ustr ''Swimming'' @ lit_duration @ ustr ''1.000'' @ lit_distance
        @ ustr ''1.000'' @ lit_speed @ ustr ''1.000'' @ lit_calories @ ustr ''inf'' @ ustr ''.'')
   \<and> 46 \<notin> set (ustr ''inf'')"
proof -
  have c: "format_f 3 (PFloat (Fin 1)) = Inr (ustr ''1.000'')"
    by (simp add: fmt_eval)
  have i: "format_f 3 (PFloat PInf) = Inr (ustr ''inf'')"
    by (simp add: format_f_def float_format_f_def)
  have p: "46 \<notin> set (ustr ''inf'')" by (simp add: ustr_def)
  show ?thesis using p by (simp add: get_message_default c i)
qed

subsection \<open>Distance and action\<close>




end
